theory Spec2Isabelle
  imports Main
begin

section \<open>The Either type of \<^verbatim>\<open>src/Either.ts\<close>\<close>

subsection \<open>Data model\<close>

text \<open>
  \<^verbatim>\<open>interface Left<L>  { readonly _tag: 'Left';  readonly value: L }\<close>
  \<^verbatim>\<open>interface Right<R> { readonly _tag: 'Right'; readonly value: R }\<close>
  \<^verbatim>\<open>type Either<L, R> = Left<L> | Right<R>\<close>

  The union of the two interfaces is a datatype with one constructor per interface; the
  constructor argument is the \<^verbatim>\<open>value\<close> field. Equality of the datatype is equality of
  tag and payload. The \<^verbatim>\<open>_tag\<close> field is the string the object carries at run time.
\<close>

datatype ('l, 'r) Either = Left 'l | Right 'r

fun tag :: "('l, 'r) Either \<Rightarrow> string" where
  "tag (Left v) = ''Left''"
| "tag (Right v) = ''Right''"

subsection \<open>Constructors and type guards\<close>

text \<open>\<^verbatim>\<open>left = (value) => ({ _tag: 'Left', value })\<close>\<close>

definition left :: "'l \<Rightarrow> ('l, 'r) Either" where
  "left v = Left v"

text \<open>\<^verbatim>\<open>right = (value) => ({ _tag: 'Right', value })\<close>\<close>

definition right :: "'r \<Rightarrow> ('l, 'r) Either" where
  "right v = Right v"

text \<open>\<^verbatim>\<open>isLeft = (e) => e._tag === 'Left'\<close>\<close>

definition isLeft :: "('l, 'r) Either \<Rightarrow> bool" where
  "isLeft e = (tag e = ''Left'')"

text \<open>\<^verbatim>\<open>isRight = (e) => e._tag === 'Right'\<close>\<close>

definition isRight :: "('l, 'r) Either \<Rightarrow> bool" where
  "isRight e = (tag e = ''Right'')"

subsection \<open>The combinators on pure callbacks\<close>

text \<open>
  \<^verbatim>\<open>fold = (onLeft, onRight) => (e) => {
    switch (e._tag) {
      case 'Left':  return onLeft(e.value);
      case 'Right': return onRight(e.value);
    }
  }\<close>
  The switch on the tag is the case analysis on the constructor.
\<close>

fun fold_either :: "('l \<Rightarrow> 't) \<Rightarrow> ('r \<Rightarrow> 't) \<Rightarrow> ('l, 'r) Either \<Rightarrow> 't" where
  "fold_either onLeft onRight (Left v) = onLeft v"
| "fold_either onLeft onRight (Right v) = onRight v"

text \<open>
  \<^verbatim>\<open>map = (f) => (e) => isRight(e) ? right(f(e.value)) : e\<close>
  In the else branch the source returns \<^verbatim>\<open>e\<close> itself, at the type
  \<^verbatim>\<open>Either<L, R2>\<close>; here that is the same constructor on the same payload.
\<close>

fun map_either :: "('r \<Rightarrow> 'r2) \<Rightarrow> ('l, 'r) Either \<Rightarrow> ('l, 'r2) Either" where
  "map_either f (Right v) = right (f v)"
| "map_either f (Left v) = Left v"

subsection \<open>The combinators on callbacks with effects\<close>

text \<open>
  A TypeScript callback may change the world around it (a call-counting spy does) and may
  throw. Such a callback takes the state of the world and gives back how it completed,
  with the state it left behind. The combinators themselves touch no state and catch
  nothing: they pass the state to the callback they call, and a throw of the callback
  leaves the combinator at once.
\<close>

datatype ('x, 'a) outcome = Returned 'a | Threw 'x

type_synonym ('s, 'x, 'a) effect = "'s \<Rightarrow> ('x, 'a) outcome \<times> 's"

fun returns :: "('x, 'a) outcome \<times> 's \<Rightarrow> bool" where
  "returns (Returned a, s) = True"
| "returns (Threw x, s) = False"

text \<open>Evaluation of \<^verbatim>\<open>k(<m>)\<close>: the argument first, then the call, unless the argument threw.\<close>

fun and_then :: "('s, 'x, 'a) effect \<Rightarrow> ('a \<Rightarrow> ('s, 'x, 'b) effect) \<Rightarrow> ('s, 'x, 'b) effect" where
  "and_then m k s = (case m s of (Returned a, s') \<Rightarrow> k a s' | (Threw x, s') \<Rightarrow> (Threw x, s'))"

definition pure_call :: "('a \<Rightarrow> 'b) \<Rightarrow> 'a \<Rightarrow> ('s, 'x, 'b) effect" where
  "pure_call f v s = (Returned (f v), s)"

fun fold_eff ::
  "('l \<Rightarrow> ('s, 'x, 't) effect) \<Rightarrow> ('r \<Rightarrow> ('s, 'x, 't) effect) \<Rightarrow> ('l, 'r) Either \<Rightarrow> ('s, 'x, 't) effect"
where
  "fold_eff onLeft onRight (Left v) s = onLeft v s"
| "fold_eff onLeft onRight (Right v) s = onRight v s"

text \<open>
  The body of \<^verbatim>\<open>fold\<close> statement by statement. The switch has no default: it compares
  \<^verbatim>\<open>e._tag\<close> with the label \<^verbatim>\<open>'Left'\<close>, then with \<^verbatim>\<open>'Right'\<close>, and leaves the function
  through the \<^verbatim>\<open>return\<close> of the case it selects. When no label is equal to the tag,
  control leaves the switch and runs off the end of the body: no handler is called and the
  function answers \<^verbatim>\<open>undefined\<close>. Under a label, TypeScript reads \<^verbatim>\<open>e.value\<close> at the
  narrowed type (\<^verbatim>\<open>Left<L>\<close> under \<^verbatim>\<open>'Left'\<close>); the inner case analysis is that reading,
  and its second branch stands for an object whose tag and variant disagree.
\<close>

datatype 'a body_exit = By_return 'a | Off_the_end

definition fold_switch ::
  "('l \<Rightarrow> ('s, 'x, 't) effect) \<Rightarrow> ('r \<Rightarrow> ('s, 'x, 't) effect) \<Rightarrow> ('l, 'r) Either
     \<Rightarrow> 's \<Rightarrow> (('x, 't) outcome \<times> 's) body_exit" where
  "fold_switch onLeft onRight e s =
     (if tag e = ''Left'' then
        (case e of Left v \<Rightarrow> By_return (onLeft v s) | Right v \<Rightarrow> Off_the_end)
      else if tag e = ''Right'' then
        (case e of Right v \<Rightarrow> By_return (onRight v s) | Left v \<Rightarrow> Off_the_end)
      else Off_the_end)"

fun map_eff :: "('r \<Rightarrow> ('s, 'x, 'r2) effect) \<Rightarrow> ('l, 'r) Either \<Rightarrow> ('s, 'x, ('l, 'r2) Either) effect" where
  "map_eff f (Right v) s = and_then (f v) (pure_call right) s"
| "map_eff f (Left v) s = (Returned (Left v), s)"

text \<open>
  A spy, as a test would write it: a pure function that also appends its name to a call
  log kept in the state. The length of the log is the number of calls made.
\<close>

definition spy :: "string \<Rightarrow> ('a \<Rightarrow> 'b) \<Rightarrow> 'a \<Rightarrow> (string list, 'x, 'b) effect" where
  "spy name f v calls = (Returned (f v), calls @ [name])"

section \<open>Properties\<close>

subsection \<open>The case analyses of the model are the tests of the source\<close>

lemma tag_cases: "tag e = ''Left'' \<or> tag e = ''Right''"
  by (cases e) simp_all

lemma tag_left [simp]: "tag (left v) = ''Left''"
  by (simp add: left_def)

lemma tag_right [simp]: "tag (right v) = ''Right''"
  by (simp add: right_def)

lemma isRight_Right [simp]: "isRight (Right v)"
  by (simp add: isRight_def)

lemma isRight_Left [simp]: "\<not> isRight (Left v)"
  by (simp add: isRight_def)

lemma isLeft_Left [simp]: "isLeft (Left v)"
  by (simp add: isLeft_def)

lemma isLeft_Right [simp]: "\<not> isLeft (Right v)"
  by (simp add: isLeft_def)

text \<open>
  \<open>map_either\<close> takes its first equation exactly when the source's test
  \<^verbatim>\<open>isRight(e)\<close> succeeds, and \<open>fold_either\<close> its first equation exactly when the
  switch selects \<^verbatim>\<open>case 'Left'\<close>.
\<close>

lemma isRight_iff: "isRight e = (case e of Left v \<Rightarrow> False | Right v \<Rightarrow> True)"
  by (cases e) simp_all

lemma tag_Left_iff: "(tag e = ''Left'') = (case e of Left v \<Rightarrow> True | Right v \<Rightarrow> False)"
  by (cases e) simp_all

lemma tag_Right_iff: "(tag e = ''Right'') = (case e of Left v \<Rightarrow> False | Right v \<Rightarrow> True)"
  by (cases e) simp_all

lemma isLeft_is_left: "isLeft e = (\<exists>v. e = left v)"
  by (cases e) (simp_all add: left_def)

lemma isRight_is_right: "isRight e = (\<exists>v. e = right v)"
  by (cases e) (simp_all add: right_def)

text \<open>On callbacks without effects the two readings of each combinator coincide.\<close>

lemma map_eff_pure: "map_eff (pure_call f) e s = (Returned (map_either f e), s)"
  by (cases e) (simp_all add: pure_call_def)

lemma fold_eff_pure:
  "fold_eff (pure_call onLeft) (pure_call onRight) e s = (Returned (fold_either onLeft onRight e), s)"
  by (cases e) (simp_all add: pure_call_def)

subsection \<open>The scenarios of the specification\<close>

lemma scenario_fold_left:
  "fold_either (\<lambda>e. ''err:'' @ e) (\<lambda>n. ''ok:'' @ n) (left ''bad'') = ''err:bad''"
  by (simp add: left_def)

lemma scenario_map_right:
  "map_either (\<lambda>n::int. n * 2) (right 5 :: (string, int) Either) = right 10"
  by (simp add: right_def)

lemma scenario_map_left_spy:
  "map_eff (spy ''f'' (\<lambda>n::int. n * 2)) (left ''fail'') [] = (Returned (left ''fail''), [])"
  by (simp add: left_def)

lemma null_payload:
  "isLeft (left None) \<and> \<not> isRight (left None) \<and> isRight (right None) \<and> \<not> isLeft (right None)"
  by (simp add: left_def right_def)

subsection \<open>map\<close>

text \<open>
  C1 (short-circuit law). For every function \<open>f\<close> and value \<open>v\<close>, \<open>map(f)(left(v))\<close> is
  \<open>left(v)\<close>, payload unchanged, and the result does not depend on \<open>f\<close>. The function is
  never invoked: whatever a callback \<open>F\<close> would do to the state or throw, mapping it over
  \<open>left(v)\<close> returns with the state untouched, and a spy logs no call.
\<close>

theorem map_left_short_circuit:
  "map_either f (left v) = left v
   \<and> map_either f (left v) = map_either g (left v)
   \<and> map_eff F (left v) s = (Returned (left v), s)
   \<and> map_eff (spy name f) (left v) calls = (Returned (left v), calls)"
  by (simp add: left_def)

text \<open>
  C2 (functor application law). For every function \<open>f\<close> and value \<open>v\<close>,
  \<open>map(f)(right(v))\<close> is \<open>right(f(v))\<close>; a spy in place of \<open>f\<close> is called exactly once.
\<close>

theorem map_right_applies:
  "map_either f (right v) = right (f v)
   \<and> map_eff (spy name f) (right v) calls = (Returned (right (f v)), calls @ [name])"
  by (simp add: right_def spy_def pure_call_def)

text \<open>
  C7 (functor identity law). For every Either value \<open>e\<close>, \<open>map(x => x)(e)\<close> equals \<open>e\<close>,
  with equality of tag and payload.
\<close>

theorem map_identity: "map_either (\<lambda>x. x) e = e"
  by (cases e) (simp_all add: right_def)

text \<open>
  C8 (functor composition law). For every Either value \<open>e\<close> and all functions \<open>f\<close>, \<open>g\<close>,
  \<open>map(g)(map(f)(e))\<close> equals \<open>map(x => g(f(x)))(e)\<close>. The law also holds for callbacks
  with effects: the calls made, their order and a throw are the same on both sides.
\<close>

theorem map_composition:
  "map_either g (map_either f e) = map_either (\<lambda>x. g (f x)) e
   \<and> and_then (map_eff F e) (map_eff G) s = map_eff (\<lambda>x. and_then (F x) G) e s"
proof (cases e)
  case (Left v)
  then show ?thesis by simp
next
  case (Right v)
  have "and_then (map_eff F (Right v)) (map_eff G) s = map_eff (\<lambda>x. and_then (F x) G) (Right v) s"
    by (simp add: right_def pure_call_def split: prod.split outcome.split)
  with Right show ?thesis by (simp add: right_def)
qed

subsection \<open>fold\<close>

text \<open>
  C3. For every value \<open>v\<close> and handlers \<open>onLeft\<close>, \<open>onRight\<close>,
  \<open>fold(onLeft, onRight)(left(v))\<close> is \<open>onLeft(v)\<close> and does not depend on \<open>onRight\<close>.
  \<open>onRight\<close> is never invoked: with handlers that have effects, the fold does to the state
  what the one call \<open>onLeft(v)\<close> does and completes as it completes, and the call log of two
  spies holds the left one alone.
\<close>

theorem fold_left_handler:
  "fold_either onLeft onRight (left v) = onLeft v
   \<and> fold_either onLeft onRight (left v) = fold_either onLeft onRight' (left v)
   \<and> fold_eff L R (left v) s = L v s
   \<and> fold_eff (spy ''onLeft'' onLeft) (spy ''onRight'' onRight) (left v) calls
       = (Returned (onLeft v), calls @ [''onLeft''])"
  by (simp add: left_def spy_def)

text \<open>
  C4. For every value \<open>v\<close> and handlers \<open>onLeft\<close>, \<open>onRight\<close>,
  \<open>fold(onLeft, onRight)(right(v))\<close> is \<open>onRight(v)\<close> and does not depend on \<open>onLeft\<close>,
  which is never invoked. For every Either exactly one branch is evaluated: folding two
  spies adds one entry to the call log, the name of the handler of the value's variant.
\<close>

theorem fold_right_handler:
  "fold_either onLeft onRight (right v) = onRight v
   \<and> fold_either onLeft onRight (right v) = fold_either onLeft' onRight (right v)
   \<and> fold_eff L R (right v) s = R v s
   \<and> fold_eff (spy ''onLeft'' onLeft) (spy ''onRight'' onRight) (right v) calls
       = (Returned (onRight v), calls @ [''onRight''])
   \<and> snd (fold_eff (spy ''onLeft'' onLeft) (spy ''onRight'' onRight) e calls)
       = calls @ [if isLeft e then ''onLeft'' else ''onRight'']"
  by (cases e) (simp_all add: right_def spy_def)

text \<open>
  C10. Fold loses no information: for every Either value \<open>e\<close>, folding with the two
  constructors, \<open>fold(left, right)(e)\<close>, gives \<open>e\<close> back.
\<close>

theorem fold_constructors: "fold_either left right e = e"
  by (cases e) (simp_all add: left_def right_def)

subsection \<open>Constructors and guards\<close>

text \<open>
  C5. For every value \<open>v\<close>, of any type and with no validation, \<open>isLeft(left(v))\<close> is true
  and \<open>isRight(left(v))\<close> is false; \<open>isRight(right(v))\<close> is true and \<open>isLeft(right(v))\<close> is
  false. (The payload type is arbitrary; \<open>null_payload\<close> is the instance at an absent
  value.)
\<close>

theorem guards_of_constructors:
  "isLeft (left v) \<and> \<not> isRight (left v) \<and> isRight (right w) \<and> \<not> isLeft (right w)"
  by (simp add: left_def right_def)

text \<open>
  C6 (exhaustiveness). For every Either value \<open>e\<close>, exactly one of \<open>isLeft(e)\<close> and
  \<open>isRight(e)\<close> is true, and \<open>isRight(e)\<close> is the negation of \<open>isLeft(e)\<close>.
\<close>

theorem guards_exclusive:
  "(isLeft e \<or> isRight e) \<and> \<not> (isLeft e \<and> isRight e) \<and> isRight e = (\<not> isLeft e)"
  by (cases e) simp_all

subsection \<open>Totality\<close>

text \<open>
  C9. Provided the callbacks \<open>f\<close>, \<open>onLeft\<close>, \<open>onRight\<close> the caller supplies do not fail,
  \<open>fold\<close> and \<open>map\<close> do not fail, on any Either and in any state, and each returns a value
  its code computed:
  \<^item> the switch of \<open>fold\<close> never runs off its end: for every Either it leaves through the
    \<^verbatim>\<open>return\<close> of one of its two cases, with the result \<open>fold\<close> gives;
  \<^item> \<open>fold\<close> returns, and what it returns is what the handler of the value's variant
    returned on the payload: \<open>isLeft\<close> holds and the value is a \<open>left(v)\<close> folded by
    \<open>onLeft(v)\<close>, or \<open>isRight\<close> holds and it is a \<open>right(v)\<close> folded by \<open>onRight(v)\<close>;
  \<^item> \<open>map\<close> returns: on a \<open>left(v)\<close>, where \<open>isLeft\<close> holds, that same \<open>left(v)\<close>; on a
    \<open>right(v)\<close>, where \<open>isRight\<close> holds, the \<open>right\<close> of what \<open>f(v)\<close> returned.
  So one of the two guards answers true on every Either, every Either is a value of \<open>left\<close>
  or of \<open>right\<close>, and there is no third way through either combinator.
\<close>

theorem combinators_total:
  assumes "\<forall>v s. returns (onLeft v s)"
    and "\<forall>v s. returns (onRight v s)"
    and "\<forall>v s. returns (f v s)"
  shows "fold_switch onLeft onRight e s = By_return (fold_eff onLeft onRight e s)
    \<and> returns (fold_eff onLeft onRight e s)
    \<and> ((isLeft e \<and> (\<exists>v. e = left v \<and> fold_eff onLeft onRight e s = onLeft v s))
       \<or> (isRight e \<and> (\<exists>v. e = right v \<and> fold_eff onLeft onRight e s = onRight v s)))
    \<and> returns (map_eff f e s)
    \<and> ((isLeft e \<and> (\<exists>v. e = left v \<and> map_eff f e s = (Returned (left v), s)))
       \<or> (isRight e \<and> (\<exists>v. e = right v \<and> map_eff f e s = and_then (f v) (pure_call right) s)))"
proof (cases e)
  case (Left l)
  from assms(1) have "returns (onLeft l s)" by blast
  with Left show ?thesis by (simp add: fold_switch_def left_def)
next
  case (Right r)
  from assms(2) have fold_ok: "returns (onRight r s)" by blast
  from assms(3) have "returns (f r s)" by blast
  then obtain a s' where "f r s = (Returned a, s')"
    by (cases "f r s" rule: returns.cases) simp_all
  then have map_ok: "returns (map_eff f (Right r) s)" by (simp add: pure_call_def)
  from Right fold_ok map_ok show ?thesis by (simp add: fold_switch_def right_def)
qed

theorem combinators_total_witness:
  "(\<forall>v s. returns (spy ''onLeft'' (length :: string \<Rightarrow> nat) v s :: (unit, nat) outcome \<times> string list))
   \<and> (\<forall>v s. returns (spy ''onRight'' (\<lambda>n::nat. n + 1) v s :: (unit, nat) outcome \<times> string list))
   \<and> (\<forall>v s. returns (spy ''f'' (\<lambda>n::nat. 2 * n) v s :: (unit, nat) outcome \<times> string list))
   \<and> fold_switch (spy ''onLeft'' length) (spy ''onRight'' (\<lambda>n::nat. n + 1)) (Right 5 :: (string, nat) Either) []
       = By_return (Returned 6 :: (unit, nat) outcome, [''onRight''])
   \<and> fold_switch (spy ''onLeft'' length) (spy ''onRight'' (\<lambda>n::nat. n + 1)) (Left ''bad'' :: (string, nat) Either) []
       = By_return (Returned 3 :: (unit, nat) outcome, [''onLeft''])
   \<and> returns (fold_eff (spy ''onLeft'' (length :: string \<Rightarrow> nat)) (spy ''onRight'' (\<lambda>n::nat. n + 1))
       (Right 5 :: (string, nat) Either) [] :: (unit, nat) outcome \<times> string list)
   \<and> returns (map_eff (spy ''f'' (\<lambda>n::nat. 2 * n)) (Right 5 :: (string, nat) Either) []
       :: (unit, (string, nat) Either) outcome \<times> string list)"
proof -
  have h1: "\<forall>v s. returns (spy ''onLeft'' (length :: string \<Rightarrow> nat) v s :: (unit, nat) outcome \<times> string list)"
    by (simp add: spy_def)
  have h2: "\<forall>v s. returns (spy ''onRight'' (\<lambda>n::nat. n + 1) v s :: (unit, nat) outcome \<times> string list)"
    by (simp add: spy_def)
  have h3: "\<forall>v s. returns (spy ''f'' (\<lambda>n::nat. 2 * n) v s :: (unit, nat) outcome \<times> string list)"
    by (simp add: spy_def)
  have ev_right: "fold_eff (spy ''onLeft'' length) (spy ''onRight'' (\<lambda>n::nat. n + 1)) (Right 5 :: (string, nat) Either) []
       = (Returned 6 :: (unit, nat) outcome, [''onRight''])"
    by (simp add: spy_def)
  have ev_left: "fold_eff (spy ''onLeft'' length) (spy ''onRight'' (\<lambda>n::nat. n + 1)) (Left ''bad'' :: (string, nat) Either) []
       = (Returned 3 :: (unit, nat) outcome, [''onLeft''])"
    by (simp add: spy_def)
  note on_right = combinators_total [OF h1 h2 h3, of "Right 5" "[]"]
  note on_left = combinators_total [OF h1 h2 h3, of "Left ''bad''" "[]"]
  note switch_right = on_right [THEN conjunct1, unfolded ev_right]
  note switch_left = on_left [THEN conjunct1, unfolded ev_left]
  note fold_returns = on_right [THEN conjunct2, THEN conjunct1]
  note map_returns = on_right [THEN conjunct2, THEN conjunct2, THEN conjunct2, THEN conjunct1]
  from h1 h2 h3 switch_right switch_left fold_returns map_returns show ?thesis
    by (intro conjI)
qed

end
